theory Spec2Isabelle
  imports Complex_Main "HOL-Library.AList" "HOL-Library.Signed_Division"
begin

section \<open>Machine integers and vectors\<close>

text \<open>
  The C++ sources use \<open>int\<close> (32-bit two's complement) for page and frame numbers and
  \<open>size_t\<close> (64-bit unsigned) for counters and sizes. Page numbers are arbitrary
  caller-supplied \<open>int\<close>s, so the arithmetic of the predictor on them is written with
  its conversions: \<open>int32\<close> is the value an \<open>int\<close> holds after an operation (two's
  complement wrap-around), \<open>size_t_of_int\<close> the conversion of an \<open>int\<close> operand that
  meets a \<open>size_t\<close> operand, and \<open>size_t_incr\<close> is \<open>++\<close> on a \<open>size_t\<close> counter.
  Frame numbers and the clock hand are positions of a vector (or the sentinel \<open>-1\<close>),
  kept as \<open>int\<close>. Where the source narrows a position or a size with \<open>static_cast\<close>
  to \<open>int\<close>, the model applies \<open>int32\<close>; the clock hand stays inside its vector, and
  its step is written on \<open>int\<close>. The theorems about arbitrary configurations assume
  \<open>total_frames\<close> below \<open>2^31\<close>, where the narrowing and the step are exact.
\<close>

definition int32 :: "int \<Rightarrow> int" where
  "int32 x = (x + 2 ^ 31) mod 2 ^ 32 - 2 ^ 31"

definition size_t_of_int :: "int \<Rightarrow> nat" where
  "size_t_of_int x = nat (x mod 2 ^ 64)"

definition size_t_incr :: "nat \<Rightarrow> nat" where
  "size_t_incr x = (x + 1) mod 2 ^ 64"

definition ULLONG_MAX :: nat where
  "ULLONG_MAX = 2 ^ 64 - 1"

text \<open>
  Reading or writing a \<open>std::vector\<close> outside its bounds and the remainder by zero are
  undefined behaviour in C++. The model makes them values: a function whose source can
  reach one returns \<open>Inl\<close> of it.
\<close>

datatype undefined_behaviour = IndexOutOfRange | DivisionByZero

definition vec_get :: "'a list \<Rightarrow> int \<Rightarrow> undefined_behaviour + 'a" where
  "vec_get xs i = (if 0 \<le> i \<and> i < int (length xs) then Inr (xs ! nat i) else Inl IndexOutOfRange)"

definition vec_set :: "'a list \<Rightarrow> int \<Rightarrow> 'a \<Rightarrow> undefined_behaviour + 'a list" where
  "vec_set xs i v = (if 0 \<le> i \<and> i < int (length xs) then Inr (xs[nat i := v]) else Inl IndexOutOfRange)"

text \<open>\<open>std::vector::resize(n, v)\<close>: keeps the first \<open>n\<close> elements and pads with \<open>v\<close>.\<close>

definition resize :: "'a list \<Rightarrow> nat \<Rightarrow> 'a \<Rightarrow> 'a list" where
  "resize xs n v = take n xs @ replicate (n - length xs) v"

section \<open>Page table (PageTable.h, PageTable.cpp)\<close>

record PageEntry =
  valid :: bool
  referenced :: bool
  modified :: bool
  frame_number :: int
  access_count :: int
  last_access_time :: nat

text \<open>The default member initialisers of \<open>PageEntry\<close>.\<close>

definition PageEntry_default :: PageEntry where
  "PageEntry_default =
     \<lparr>valid = False, referenced = False, modified = False, frame_number = -1,
      access_count = 0, last_access_time = 0\<rparr>"

text \<open>
  \<open>pages_\<close> is a \<open>std::unordered_map\<close> from \<open>int\<close> to \<open>PageEntry\<close>: an association list with
  one pair per key. The iteration order of the C++ map is unspecified; the list keeps
  the order of first insertion, and results that depend on the order are only read as
  sets.
\<close>

record PageTable =
  pages :: "(int \<times> PageEntry) list"
  pt_page_size :: nat
  pt_total_pages :: nat

definition PageTable_new :: "nat \<Rightarrow> nat \<Rightarrow> PageTable" where
  "PageTable_new psize tpages = \<lparr>pages = [], pt_page_size = psize, pt_total_pages = tpages\<rparr>"

text \<open>\<open>pages_[page_number]\<close>: the entry, default-constructed when the key is absent.\<close>

definition entry_at :: "PageTable \<Rightarrow> int \<Rightarrow> PageEntry" where
  "entry_at pt page_number =
     (case map_of (pages pt) page_number of None \<Rightarrow> PageEntry_default | Some e \<Rightarrow> e)"

definition isPageValid :: "PageTable \<Rightarrow> int \<Rightarrow> bool" where
  "isPageValid pt page_number =
     (case map_of (pages pt) page_number of None \<Rightarrow> False | Some e \<Rightarrow> valid e)"



definition getFrameNumber :: "PageTable \<Rightarrow> int \<Rightarrow> int" where
  "getFrameNumber pt page_number =
     (case map_of (pages pt) page_number of
        None \<Rightarrow> -1
      | Some e \<Rightarrow> if valid e then frame_number e else -1)"

definition setPageValid :: "PageTable \<Rightarrow> int \<Rightarrow> bool \<Rightarrow> PageTable" where
  "setPageValid pt page_number v =
     pt\<lparr>pages := AList.update page_number ((entry_at pt page_number)\<lparr>valid := v\<rparr>) (pages pt)\<rparr>"


definition setPageModified :: "PageTable \<Rightarrow> int \<Rightarrow> bool \<Rightarrow> PageTable" where
  "setPageModified pt page_number m =
     pt\<lparr>pages := AList.update page_number ((entry_at pt page_number)\<lparr>modified := m\<rparr>) (pages pt)\<rparr>"

definition setFrameNumber :: "PageTable \<Rightarrow> int \<Rightarrow> int \<Rightarrow> PageTable" where
  "setFrameNumber pt page_number f =
     pt\<lparr>pages := AList.update page_number ((entry_at pt page_number)\<lparr>frame_number := f\<rparr>) (pages pt)\<rparr>"

definition recordPageAccess :: "PageTable \<Rightarrow> int \<Rightarrow> nat \<Rightarrow> PageTable" where
  "recordPageAccess pt page_number current_time =
     pt\<lparr>pages := AList.update page_number
        ((entry_at pt page_number)
           \<lparr>referenced := True,
            access_count := int32 (access_count (entry_at pt page_number) + 1),
            last_access_time := current_time\<rparr>)
        (pages pt)\<rparr>"

definition getAccessCount :: "PageTable \<Rightarrow> int \<Rightarrow> int" where
  "getAccessCount pt page_number =
     (case map_of (pages pt) page_number of None \<Rightarrow> 0 | Some e \<Rightarrow> access_count e)"


definition getValidPages :: "PageTable \<Rightarrow> int list" where
  "getValidPages pt = map fst (filter (\<lambda>pair. valid (snd pair)) (pages pt))"

definition getValidPageCount :: "PageTable \<Rightarrow> nat" where
  "getValidPageCount pt = length (filter (\<lambda>pair. valid (snd pair)) (pages pt))"

section \<open>Replacement policies (Replacement.h, Replacement.cpp)\<close>

datatype ReplacementPolicy = FIFO | LRU | CLOCK

text \<open>
  The three subclasses of \<open>ReplacementAlgorithm\<close> with their private members; a virtual
  call is a case distinction on the constructor. \<open>fifo_queue_\<close> is a list with its front
  first, \<open>in_queue_\<close> a set. No policy reads the \<open>page_table\<close> argument of
  \<open>selectVictimFrame\<close>, so the model does not pass it.
\<close>

datatype ReplacementAlgorithm =
    FIFOReplacement (fifo_queue: "int list") (in_queue: "int set")
  | LRUReplacement (last_access_times: "nat list") (current_time: nat)
  | CLOCKReplacement (reference_bits: "bool list") (clock_hand: int)

text \<open>
  \<open>FIFOReplacement::selectVictimFrame\<close>: the \<open>while\<close> loop over the queue. The head that
  is returned stays in the queue.
\<close>

fun FIFO_selectVictimFrame ::
  "bool list \<Rightarrow> int list \<Rightarrow> int set \<Rightarrow> undefined_behaviour + (int \<times> ReplacementAlgorithm)" where
  "FIFO_selectVictimFrame fv [] inq = Inr (-1, FIFOReplacement [] inq)"
| "FIFO_selectVictimFrame fv (frame # q) inq =
     (case vec_get fv frame of
        Inl ub \<Rightarrow> Inl ub
      | Inr occupied \<Rightarrow>
          if occupied then Inr (frame, FIFOReplacement (frame # q) inq)
          else FIFO_selectVictimFrame fv q (inq - {frame}))"

text \<open>
  \<open>LRUReplacement::selectVictimFrame\<close>: the \<open>for\<close> loop from position \<open>i\<close>, with the
  locals \<open>oldest_time\<close> and \<open>victim_frame\<close>. \<open>&&\<close> reads \<open>last_access_times_[i]\<close> only
  for an occupied frame.
\<close>

function LRU_scan ::
  "bool list \<Rightarrow> nat list \<Rightarrow> nat \<Rightarrow> nat \<Rightarrow> int \<Rightarrow> undefined_behaviour + int" where
  "LRU_scan fv lat i oldest_time victim_frame =
     (if i < length fv then
        (if fv ! i then
           (case vec_get lat (int i) of
              Inl ub \<Rightarrow> Inl ub
            | Inr t \<Rightarrow>
                if t < oldest_time then LRU_scan fv lat (Suc i) t (int32 (int i))
                else LRU_scan fv lat (Suc i) oldest_time victim_frame)
         else LRU_scan fv lat (Suc i) oldest_time victim_frame)
      else Inr victim_frame)"
  by pat_completeness auto
termination
  by (relation "measure (\<lambda>(fv, lat, i, oldest_time, victim_frame). length fv - i)") auto

definition LRU_selectVictimFrame ::
  "bool list \<Rightarrow> nat list \<Rightarrow> nat \<Rightarrow> undefined_behaviour + (int \<times> ReplacementAlgorithm)" where
  "LRU_selectVictimFrame fv lat ct =
     (case LRU_scan fv lat 0 ULLONG_MAX (-1) of
        Inl ub \<Rightarrow> Inl ub
      | Inr victim_frame \<Rightarrow> Inr (victim_frame, LRUReplacement lat ct))"

text \<open>
  \<open>CLOCKReplacement::selectVictimFrame\<close>: the two \<open>do ... while (clock_hand_ != start_hand)\<close>
  loops. Each function is one loop, entered with the hand at \<open>hand\<close>; the result is the
  victim the loop returned (\<open>Some\<close>) or \<open>None\<close> when the loop ran off its end, with the
  new hand (and reference bits). The first iteration of the source reads the vectors at
  \<open>start_hand\<close>, so a \<open>start_hand\<close> outside the vector is \<open>IndexOutOfRange\<close>; a read at
  the hand outside the vector is too, which also covers the remainder by a size of zero.
\<close>

text \<open>
  The distance from the hand forward to \<open>start_hand\<close> (a full turn when the hand is on
  it) shrinks with every step that does not reach \<open>start_hand\<close>: the loops end.
\<close>

lemma clock_distance_decreases:
  fixes start_hand hand n :: int
  assumes s: "0 \<le> start_hand" "start_hand < n"
    and h: "0 \<le> hand" "hand < n"
    and ne: "(hand + 1) mod n \<noteq> start_hand"
  shows "nat ((start_hand - (hand + 1) mod n) mod n)
           < (if hand = start_hand then nat n else nat ((start_hand - hand) mod n))"
proof -
  have npos: "0 < n" using h by linarith
  have "(start_hand - (hand + 1) mod n) mod n = (start_hand - (hand + 1)) mod n"
    by (rule mod_diff_right_eq)
  then have step: "(start_hand - (hand + 1) mod n) mod n = (start_hand - hand - 1) mod n"
    by (simp only: diff_diff_eq)
  show ?thesis
  proof (cases "hand = start_hand")
    case True
    have "(start_hand - (hand + 1) mod n) mod n < n"
      using npos by (rule pos_mod_bound)
    then have "nat ((start_hand - (hand + 1) mod n) mod n) < nat n"
      using npos by linarith
    with True show ?thesis
      by simp
  next
    case False
    define d where "d = (start_hand - hand) mod n"
    have d0: "0 \<le> d" "d < n"
      using npos by (simp_all only: d_def pos_mod_sign pos_mod_bound)
    have "d \<noteq> 0"
    proof
      assume "d = 0"
      then have "n dvd (start_hand - hand)"
        by (simp only: d_def mod_eq_0_iff_dvd)
      then have dv: "n dvd \<bar>start_hand - hand\<bar>"
        by (simp only: dvd_abs_iff)
      have "0 < \<bar>start_hand - hand\<bar>" "\<bar>start_hand - hand\<bar> < n"
        using s h False by linarith+
      then have "\<not> n dvd \<bar>start_hand - hand\<bar>"
        by (rule zdvd_not_zless)
      with dv show False by simp
    qed
    then have d1: "1 \<le> d" using d0 by linarith
    have "(start_hand - hand - 1) mod n = (d - 1) mod n"
      unfolding d_def by (rule mod_diff_left_eq [symmetric])
    also have "\<dots> = d - 1"
      using d0 d1 by (intro mod_pos_pos_trivial) linarith+
    finally have "(start_hand - (hand + 1) mod n) mod n = d - 1"
      using step by (simp only:)
    then have "nat ((start_hand - (hand + 1) mod n) mod n) < nat d"
      using d1 by linarith
    with False show ?thesis
      by (simp only: if_False d_def)
  qed
qed

function CLOCK_first_pass ::
  "bool list \<Rightarrow> bool list \<Rightarrow> int \<Rightarrow> int \<Rightarrow> undefined_behaviour + (int option \<times> int)" where
  "CLOCK_first_pass fv bits start_hand hand =
     (if start_hand < 0 \<or> int (length fv) \<le> start_hand then Inl IndexOutOfRange
      else case vec_get fv hand of
        Inl ub \<Rightarrow> Inl ub
      | Inr occupied \<Rightarrow>
         (case (if occupied then vec_get bits hand else Inr True) of
            Inl ub \<Rightarrow> Inl ub
          | Inr refd \<Rightarrow>
              if occupied \<and> \<not> refd then Inr (Some hand, (hand + 1) mod int (length fv))
              else if (hand + 1) mod int (length fv) \<noteq> start_hand
              then CLOCK_first_pass fv bits start_hand ((hand + 1) mod int (length fv))
              else Inr (None, (hand + 1) mod int (length fv))))"
  by pat_completeness auto
termination
proof (relation "measure (\<lambda>(fv, bits, start_hand, hand).
          if hand = start_hand then length fv
          else nat ((start_hand - hand) mod int (length fv)))", goal_cases)
  case 1
  show ?case by simp
next
  case (2 fv bits start_hand hand occupied refd)
  from 2(1) have s: "0 \<le> start_hand" "start_hand < int (length fv)"
    by simp_all
  from 2(2) have h: "0 \<le> hand" "hand < int (length fv)"
    by (simp_all add: vec_get_def split: if_splits)
  from 2(5) have ne: "(hand + 1) mod int (length fv) \<noteq> start_hand"
    by simp
  have "nat ((start_hand - (hand + 1) mod int (length fv)) mod int (length fv))
           < (if hand = start_hand then nat (int (length fv))
              else nat ((start_hand - hand) mod int (length fv)))"
    using s h ne by (rule clock_distance_decreases)
  with ne show ?case
    by (cases "hand = start_hand") simp_all
qed

function CLOCK_second_pass ::
  "bool list \<Rightarrow> bool list \<Rightarrow> int \<Rightarrow> int \<Rightarrow> undefined_behaviour + (int option \<times> int \<times> bool list)" where
  "CLOCK_second_pass fv bits start_hand hand =
     (if start_hand < 0 \<or> int (length fv) \<le> start_hand then Inl IndexOutOfRange
      else case vec_get fv hand of
        Inl ub \<Rightarrow> Inl ub
      | Inr occupied \<Rightarrow>
         (case (if occupied then vec_get bits hand else Inr True) of
            Inl ub \<Rightarrow> Inl ub
          | Inr refd \<Rightarrow>
              if occupied \<and> \<not> refd then Inr (Some hand, (hand + 1) mod int (length fv), bits)
              else if (hand + 1) mod int (length fv) \<noteq> start_hand
              then CLOCK_second_pass fv (if occupied then bits[nat hand := False] else bits)
                     start_hand ((hand + 1) mod int (length fv))
              else Inr (None, (hand + 1) mod int (length fv),
                        if occupied then bits[nat hand := False] else bits)))"
  by pat_completeness auto
termination
proof (relation "measure (\<lambda>(fv, bits, start_hand, hand).
          if hand = start_hand then length fv
          else nat ((start_hand - hand) mod int (length fv)))", goal_cases)
  case 1
  show ?case by simp
next
  case (2 fv bits start_hand hand occupied refd)
  from 2(1) have s: "0 \<le> start_hand" "start_hand < int (length fv)"
    by simp_all
  from 2(2) have h: "0 \<le> hand" "hand < int (length fv)"
    by (simp_all add: vec_get_def split: if_splits)
  from 2(5) have ne: "(hand + 1) mod int (length fv) \<noteq> start_hand"
    by simp
  have "nat ((start_hand - (hand + 1) mod int (length fv)) mod int (length fv))
           < (if hand = start_hand then nat (int (length fv))
              else nat ((start_hand - hand) mod int (length fv)))"
    using s h ne by (rule clock_distance_decreases)
  with ne show ?case
    by (cases "hand = start_hand") simp_all
qed

definition CLOCK_selectVictimFrame ::
  "bool list \<Rightarrow> bool list \<Rightarrow> int \<Rightarrow> undefined_behaviour + (int \<times> ReplacementAlgorithm)" where
  "CLOCK_selectVictimFrame fv bits hand =
     (case CLOCK_first_pass fv bits hand hand of
        Inl ub \<Rightarrow> Inl ub
      | Inr (Some victim, hand1) \<Rightarrow> Inr (victim, CLOCKReplacement bits hand1)
      | Inr (None, hand1) \<Rightarrow>
          (case CLOCK_second_pass fv bits hand hand1 of
             Inl ub \<Rightarrow> Inl ub
           | Inr (Some victim, hand2, bits2) \<Rightarrow> Inr (victim, CLOCKReplacement bits2 hand2)
           | Inr (None, hand2, bits2) \<Rightarrow> Inr (-1, CLOCKReplacement bits2 hand2)))"

text \<open>The virtual methods, dispatched on the subclass.\<close>

fun Algorithm_selectVictimFrame ::
  "ReplacementAlgorithm \<Rightarrow> bool list \<Rightarrow> undefined_behaviour + (int \<times> ReplacementAlgorithm)" where
  "Algorithm_selectVictimFrame (FIFOReplacement q inq) fv = FIFO_selectVictimFrame fv q inq"
| "Algorithm_selectVictimFrame (LRUReplacement lat ct) fv = LRU_selectVictimFrame fv lat ct"
| "Algorithm_selectVictimFrame (CLOCKReplacement bits hand) fv = CLOCK_selectVictimFrame fv bits hand"

fun Algorithm_recordFrameAccess :: "ReplacementAlgorithm \<Rightarrow> int \<Rightarrow> ReplacementAlgorithm" where
  "Algorithm_recordFrameAccess (FIFOReplacement q inq) f =
     (if f \<notin> inq then FIFOReplacement (q @ [f]) (insert f inq) else FIFOReplacement q inq)"
| "Algorithm_recordFrameAccess (LRUReplacement lat ct) f =
     (if 0 \<le> f \<and> f < int32 (int (length lat))
      then LRUReplacement (lat[nat f := ct]) (size_t_incr ct)
      else LRUReplacement lat ct)"
| "Algorithm_recordFrameAccess (CLOCKReplacement bits hand) f =
     (if 0 \<le> f \<and> f < int32 (int (length bits)) then CLOCKReplacement (bits[nat f := True]) hand
      else CLOCKReplacement bits hand)"

fun Algorithm_recordFrameEviction :: "ReplacementAlgorithm \<Rightarrow> int \<Rightarrow> ReplacementAlgorithm" where
  "Algorithm_recordFrameEviction (FIFOReplacement q inq) f = FIFOReplacement q inq"
| "Algorithm_recordFrameEviction (LRUReplacement lat ct) f = LRUReplacement lat ct"
| "Algorithm_recordFrameEviction (CLOCKReplacement bits hand) f =
     (if 0 \<le> f \<and> f < int32 (int (length bits)) then CLOCKReplacement (bits[nat f := False]) hand
      else CLOCKReplacement bits hand)"

record ReplacementManager =
  algorithm :: ReplacementAlgorithm
  num_frames :: nat

text \<open>The object \<open>setPolicy\<close> makes: each constructor with its initial members.\<close>

fun make_algorithm :: "ReplacementPolicy \<Rightarrow> nat \<Rightarrow> ReplacementAlgorithm" where
  "make_algorithm FIFO n = FIFOReplacement [] {}"
| "make_algorithm LRU n = LRUReplacement (replicate n 0) 0"
| "make_algorithm CLOCK n = CLOCKReplacement (replicate n False) 0"

definition setPolicy :: "ReplacementManager \<Rightarrow> ReplacementPolicy \<Rightarrow> ReplacementManager" where
  "setPolicy rm policy = rm\<lparr>algorithm := make_algorithm policy (num_frames rm)\<rparr>"

definition ReplacementManager_new :: "ReplacementPolicy \<Rightarrow> nat \<Rightarrow> ReplacementManager" where
  "ReplacementManager_new policy n = \<lparr>algorithm = make_algorithm policy n, num_frames = n\<rparr>"

definition selectVictimFrame ::
  "ReplacementManager \<Rightarrow> bool list \<Rightarrow> undefined_behaviour + (int \<times> ReplacementManager)" where
  "selectVictimFrame rm fv =
     (case Algorithm_selectVictimFrame (algorithm rm) fv of
        Inl ub \<Rightarrow> Inl ub
      | Inr (victim, alg) \<Rightarrow> Inr (victim, rm\<lparr>algorithm := alg\<rparr>))"

definition recordFrameAccess :: "ReplacementManager \<Rightarrow> int \<Rightarrow> ReplacementManager" where
  "recordFrameAccess rm f = rm\<lparr>algorithm := Algorithm_recordFrameAccess (algorithm rm) f\<rparr>"

definition recordFrameEviction :: "ReplacementManager \<Rightarrow> int \<Rightarrow> ReplacementManager" where
  "recordFrameEviction rm f = rm\<lparr>algorithm := Algorithm_recordFrameEviction (algorithm rm) f\<rparr>"

section \<open>The virtual memory manager (VMM.h, VMM.cpp)\<close>

record VMMConfig =
  total_frames :: nat
  page_size :: nat
  total_pages :: nat
  replacement_policy :: ReplacementPolicy
  enable_ai_predictions :: bool
  ai_predictor_url :: string

record VMMMetrics =
  total_accesses :: nat
  page_faults :: nat
  swap_ins :: nat
  swap_outs :: nat
  ai_predictions :: nat
  ai_hits :: nat

text \<open>
  An event is the pair of strings \<open>emitEvent\<close> is called with. The type is kept as the
  string; the message, which the source concatenates from a fixed text and
  \<open>std::to_string\<close> of its numbers, is kept as the text's name and the numbers. No call
  passes the optional \<open>data\<close>, and the time stamp is the wall clock: both are left out.
\<close>

datatype event_message =
    Prefetched_page_based_on_AI_prediction int
  | AI_HIT_Page_was_correctly_predicted int
  | Page_read_or_write int bool
  | Simulation_started
  | Simulation_stopped
  | Received_predictions nat
  | Prefetched_page int
  | Page_fault_for_page int
  | No_victim_frame_found
  | Evicted_page_from_frame int int
  | Swapped_in_page_to_frame int int
  | Swapped_out_page_from_frame int int
  | Predicted "int list"
  | Generated_predictions_confidence nat real

record VMMEvent =
  ev_type :: string
  ev_message :: event_message

text \<open>
  The members of \<open>class VMM\<close>. \<open>event_callback\<close> says whether a callback is installed;
  \<open>events\<close> is the sequence of events the callback has been called with. The mutex
  serialises the public operations, which the model runs one after the other.
\<close>

record VMM =
  config :: VMMConfig
  page_table :: PageTable
  replacement_manager :: ReplacementManager
  metrics :: VMMMetrics
  frame_validity :: "bool list"
  frame_to_page :: "int list"
  frame_modified :: "bool list"
  recent_accesses :: "int list"
  recent_predictions :: "int list"
  ai_predictions_made :: nat
  ai_prediction_confidence :: real
  simulation_running :: bool
  event_callback :: bool
  events :: "VMMEvent list"

definition MAX_RECENT_ACCESSES :: nat where
  "MAX_RECENT_ACCESSES = 100"

definition VMMMetrics_zero :: VMMMetrics where
  "VMMMetrics_zero =
     \<lparr>total_accesses = 0, page_faults = 0, swap_ins = 0, swap_outs = 0,
      ai_predictions = 0, ai_hits = 0\<rparr>"

text \<open>The constructor \<open>VMM::VMM\<close>: the three vectors are empty before their \<open>resize\<close>.\<close>

definition VMM_new :: "VMMConfig \<Rightarrow> VMM" where
  "VMM_new cfg =
     \<lparr>config = cfg,
      page_table = PageTable_new (page_size cfg) (total_pages cfg),
      replacement_manager = ReplacementManager_new (replacement_policy cfg) (total_frames cfg),
      metrics = VMMMetrics_zero,
      frame_validity = resize [] (total_frames cfg) False,
      frame_to_page = resize [] (total_frames cfg) (-1),
      frame_modified = resize [] (total_frames cfg) False,
      recent_accesses = [],
      recent_predictions = [],
      ai_predictions_made = 0,
      ai_prediction_confidence = 0,
      simulation_running = False,
      event_callback = False,
      events = []\<rparr>"

definition emitEvent :: "VMM \<Rightarrow> string \<Rightarrow> event_message \<Rightarrow> VMM" where
  "emitEvent s ty msg =
     (if event_callback s then s\<lparr>events := events s @ [\<lparr>ev_type = ty, ev_message = msg\<rparr>]\<rparr> else s)"

definition setEventCallback :: "VMM \<Rightarrow> bool \<Rightarrow> VMM" where
  "setEventCallback s callback = s\<lparr>event_callback := callback\<rparr>"

definition startSimulation :: "VMM \<Rightarrow> VMM" where
  "startSimulation s = emitEvent (s\<lparr>simulation_running := True\<rparr>) ''SIMULATION'' Simulation_started"

definition stopSimulation :: "VMM \<Rightarrow> VMM" where
  "stopSimulation s = emitEvent (s\<lparr>simulation_running := False\<rparr>) ''SIMULATION'' Simulation_stopped"

text \<open>
  \<open>setConfig\<close>: new page table and replacement manager; the three vectors are resized,
  which keeps the elements they already hold.
\<close>

definition setConfig :: "VMM \<Rightarrow> VMMConfig \<Rightarrow> VMM" where
  "setConfig s cfg =
     s\<lparr>config := cfg,
       page_table := PageTable_new (page_size cfg) (total_pages cfg),
       replacement_manager := ReplacementManager_new (replacement_policy cfg) (total_frames cfg),
       frame_validity := resize (frame_validity s) (total_frames cfg) False,
       frame_to_page := resize (frame_to_page s) (total_frames cfg) (-1),
       frame_modified := resize (frame_modified s) (total_frames cfg) False\<rparr>"

definition getTotalAccesses :: "VMM \<Rightarrow> nat" where
  "getTotalAccesses s = total_accesses (metrics s)"

definition getPageFaults :: "VMM \<Rightarrow> nat" where
  "getPageFaults s = page_faults (metrics s)"

definition getSwapIns :: "VMM \<Rightarrow> nat" where
  "getSwapIns s = swap_ins (metrics s)"

definition getSwapOuts :: "VMM \<Rightarrow> nat" where
  "getSwapOuts s = swap_outs (metrics s)"

definition getAIPredictions :: "VMM \<Rightarrow> nat" where
  "getAIPredictions s = ai_predictions (metrics s)"

definition getAIHits :: "VMM \<Rightarrow> nat" where
  "getAIHits s = ai_hits (metrics s)"

text \<open>
  The derived rates. The quotient of the two counters as \<open>double\<close>s is modelled by the
  quotient of reals; the branch taken at a zero denominator is the literal \<open>0.0\<close>.
  \<open>VMMMetrics_getPageFaultRate\<close> and \<open>VMMMetrics_getAIHitRate\<close> are the members of the
  struct in VMM.h, the other two the accessors of \<open>class VMM\<close>.
\<close>

definition VMMMetrics_getPageFaultRate :: "VMMMetrics \<Rightarrow> real" where
  "VMMMetrics_getPageFaultRate m =
     (if 0 < total_accesses m then real (page_faults m) / real (total_accesses m) else 0)"

definition VMMMetrics_getAIHitRate :: "VMMMetrics \<Rightarrow> real" where
  "VMMMetrics_getAIHitRate m =
     (if 0 < ai_predictions m then real (ai_hits m) / real (ai_predictions m) else 0)"

definition getPageFaultRate :: "VMM \<Rightarrow> real" where
  "getPageFaultRate s =
     (let total = total_accesses (metrics s)
      in if 0 < total then real (page_faults (metrics s)) / real total else 0)"

definition getAIHitRate :: "VMM \<Rightarrow> real" where
  "getAIHitRate s =
     (let predictions = ai_predictions (metrics s)
      in if 0 < predictions then real (ai_hits (metrics s)) / real predictions else 0)"

definition getAIPredictionConfidence :: "VMM \<Rightarrow> real" where
  "getAIPredictionConfidence s = ai_prediction_confidence s"

definition resetMetrics :: "VMM \<Rightarrow> VMM" where
  "resetMetrics s = s\<lparr>metrics := VMMMetrics_zero\<rparr>"

definition getRecentAccesses :: "VMM \<Rightarrow> int list" where
  "getRecentAccesses s = recent_accesses s"

text \<open>\<open>std::count\<close> over \<open>frame_validity_\<close>.\<close>

definition getFreeFrameCount :: "VMM \<Rightarrow> nat" where
  "getFreeFrameCount s = count_list (frame_validity s) False"

definition getUsedFrameCount :: "VMM \<Rightarrow> nat" where
  "getUsedFrameCount s = count_list (frame_validity s) True"

definition VMM_getValidPages :: "VMM \<Rightarrow> int list" where
  "VMM_getValidPages s = getValidPages (page_table s)"

text \<open>\<open>findFreeFrame\<close>: the \<open>for\<close> loop, at position \<open>i\<close> of the rest of the vector.\<close>

fun find_free_from :: "bool list \<Rightarrow> nat \<Rightarrow> int" where
  "find_free_from [] i = -1"
| "find_free_from (occupied # fv) i =
     (if \<not> occupied then int32 (int i) else find_free_from fv (Suc i))"

definition findFreeFrame :: "VMM \<Rightarrow> int" where
  "findFreeFrame s = find_free_from (frame_validity s) 0"

definition allocateFrame :: "VMM \<Rightarrow> undefined_behaviour + (int \<times> VMM)" where
  "allocateFrame s =
     (let free_frame = findFreeFrame s in
      if free_frame \<noteq> -1 then
        (case vec_set (frame_validity s) free_frame True of
           Inl ub \<Rightarrow> Inl ub
         | Inr fv \<Rightarrow>
            (case vec_set (frame_modified s) free_frame False of
               Inl ub \<Rightarrow> Inl ub
             | Inr fm \<Rightarrow> Inr (free_frame, s\<lparr>frame_validity := fv, frame_modified := fm\<rparr>)))
      else Inr (-1, s))"

text \<open>
  \<open>deallocateFrame\<close> guards its index by the size of \<open>frame_validity_\<close> and then writes
  all three vectors.
\<close>

definition deallocateFrame :: "VMM \<Rightarrow> int \<Rightarrow> undefined_behaviour + VMM" where
  "deallocateFrame s f =
     (if 0 \<le> f \<and> f < int32 (int (length (frame_validity s))) then
        (case vec_set (frame_validity s) f False of
           Inl ub \<Rightarrow> Inl ub
         | Inr fv \<Rightarrow>
            (case vec_set (frame_to_page s) f (-1) of
               Inl ub \<Rightarrow> Inl ub
             | Inr ftp \<Rightarrow>
                (case vec_set (frame_modified s) f False of
                   Inl ub \<Rightarrow> Inl ub
                 | Inr fm \<Rightarrow>
                     Inr (s\<lparr>frame_validity := fv, frame_to_page := ftp, frame_modified := fm\<rparr>))))
      else Inr s)"

definition swapIn :: "VMM \<Rightarrow> int \<Rightarrow> int \<Rightarrow> VMM" where
  "swapIn s page_number f =
     emitEvent (s\<lparr>metrics := (metrics s)\<lparr>swap_ins := size_t_incr (swap_ins (metrics s))\<rparr>\<rparr>)
       ''SWAP_IN'' (Swapped_in_page_to_frame page_number f)"

definition swapOut :: "VMM \<Rightarrow> int \<Rightarrow> int \<Rightarrow> VMM" where
  "swapOut s page_number f =
     emitEvent (s\<lparr>metrics := (metrics s)\<lparr>swap_outs := size_t_incr (swap_outs (metrics s))\<rparr>\<rparr>)
       ''SWAP_OUT'' (Swapped_out_page_from_frame page_number f)"

definition updateRecentAccesses :: "VMM \<Rightarrow> int \<Rightarrow> VMM" where
  "updateRecentAccesses s page_number =
     (let ra = recent_accesses s @ [page_number]
      in s\<lparr>recent_accesses := (if MAX_RECENT_ACCESSES < length ra then tl ra else ra)\<rparr>)"

text \<open>
  \<open>(x) % config_.total_pages\<close> pushed into the \<open>std::vector\<close> of \<open>int\<close>: the \<open>int\<close>
  operand \<open>x\<close> is converted to \<open>size_t\<close>, the remainder is taken there, and the result
  is converted back to \<open>int\<close>.
\<close>

definition mod_total_pages :: "int \<Rightarrow> nat \<Rightarrow> int" where
  "mod_total_pages x tp = int32 (int (size_t_of_int x mod tp))"

text \<open>
  The three patterns of \<open>requestAIPredictions\<close> on the last three accesses: the two
  candidates pushed and the confidence stored. \<open>/\<close> and \<open>%\<close> on \<open>int\<close> truncate towards
  zero (\<open>sdiv\<close>, \<open>smod\<close>).
\<close>

definition pattern_predictions :: "int \<Rightarrow> int \<Rightarrow> int \<Rightarrow> nat \<Rightarrow> int list \<times> real" where
  "pattern_predictions third_last second_last last_page tp =
     (if last_page = int32 (second_last + 1) \<and> second_last = int32 (third_last + 1) then
        ([mod_total_pages (int32 (last_page + 1)) tp,
          mod_total_pages (int32 (last_page + 2)) tp], 85 / 100)
      else if int32 (last_page - second_last) = int32 (second_last - third_last) then
        (let stride = int32 (last_page - second_last) in
         ([mod_total_pages (int32 (last_page + stride)) tp,
           mod_total_pages (int32 (last_page + int32 (2 * stride))) tp], 70 / 100))
      else
        (let base = int32 ((last_page sdiv 10) * 10) in
         ([mod_total_pages (int32 (base + (int32 (last_page smod 10 + 1)) smod 10)) tp,
           mod_total_pages (int32 (base + (int32 (last_page smod 10 + 2)) smod 10)) tp], 60 / 100)))"

text \<open>The block \<open>if (!predictions.empty())\<close>: the metrics, the bounded history, the events.\<close>

definition record_predictions :: "VMM \<Rightarrow> int list \<Rightarrow> VMM" where
  "record_predictions s predictions =
     (if predictions \<noteq> [] then
        (let rp = recent_predictions s @ predictions;
             s1 = s\<lparr>ai_predictions_made := size_t_incr (ai_predictions_made s),
                    metrics := (metrics s)\<lparr>ai_predictions := size_t_incr (ai_predictions (metrics s))\<rparr>,
                    recent_predictions := (if 50 < length rp then drop (length rp - 50) rp else rp)\<rparr>
         in emitEvent (emitEvent s1 ''AI'' (Predicted predictions)) ''AI''
              (Generated_predictions_confidence (length predictions) (ai_prediction_confidence s1)))
      else s)"

definition requestAIPredictions :: "VMM \<Rightarrow> undefined_behaviour + (int list \<times> VMM)" where
  "requestAIPredictions s =
     (if \<not> enable_ai_predictions (config s) then Inr ([], s)
      else if recent_accesses s = [] then Inr ([], s)
      else if 3 \<le> length (recent_accesses s) then
        (if total_pages (config s) = 0 then Inl DivisionByZero
         else
           (let ra = recent_accesses s;
                last_page = last ra;
                second_last = ra ! (length ra - 2);
                third_last = ra ! (length ra - 3);
                pat = pattern_predictions third_last second_last last_page (total_pages (config s));
                predictions =
                  (if length (fst pat) < 3
                   then fst pat @ [mod_total_pages (int32 (last_page + 3)) (total_pages (config s))]
                   else fst pat)
            in Inr (predictions, record_predictions (s\<lparr>ai_prediction_confidence := snd pat\<rparr>) predictions)))
      else Inr ([], record_predictions s []))"

text \<open>The prefetch loop of \<open>accessPage\<close> over the predictions.\<close>

fun prefetch :: "VMM \<Rightarrow> int \<Rightarrow> int list \<Rightarrow> VMM" where
  "prefetch s page_number [] = s"
| "prefetch s page_number (predicted_page # rest) =
     (if predicted_page \<noteq> page_number \<and> \<not> isPageValid (page_table s) predicted_page then
        (if findFreeFrame s \<noteq> -1 then
           prefetch
             (emitEvent (swapIn s predicted_page (findFreeFrame s)) ''AI''
                (Prefetched_page_based_on_AI_prediction predicted_page))
             page_number rest
         else prefetch s page_number rest)
      else prefetch s page_number rest)"

text \<open>
  \<open>handlePageFault\<close>, in its two blocks. \<open>evictVictim\<close> is the body of
  \<open>if (frame_number == -1)\<close>: it selects the victim and evicts its page; the frame \<open>-1\<close>
  in its result means that the function has returned after the ERROR event.
  \<open>loadPage\<close> is the rest, from \<open>swapIn\<close> on.
\<close>

definition evictVictim :: "VMM \<Rightarrow> undefined_behaviour + (int \<times> VMM)" where
  "evictVictim s =
     (case selectVictimFrame (replacement_manager s) (frame_validity s) of
        Inl ub \<Rightarrow> Inl ub
      | Inr (f, rm) \<Rightarrow>
         (if f = -1 then
            Inr (-1, emitEvent (s\<lparr>replacement_manager := rm\<rparr>) ''ERROR'' No_victim_frame_found)
          else
            (case vec_get (frame_to_page s) f of
               Inl ub \<Rightarrow> Inl ub
             | Inr victim_page \<Rightarrow>
                (if victim_page \<noteq> -1 then
                   (case vec_get (frame_modified s) f of
                      Inl ub \<Rightarrow> Inl ub
                    | Inr dirty \<Rightarrow>
                       (let s1 = s\<lparr>replacement_manager := rm,
                                    page_table := setPageValid (page_table s) victim_page False\<rparr>;
                            s2 = (if dirty then swapOut s1 victim_page f else s1)
                        in Inr (f, emitEvent s2 ''EVICT'' (Evicted_page_from_frame victim_page f))))
                 else Inr (f, s\<lparr>replacement_manager := rm\<rparr>)))))"

definition loadPage :: "VMM \<Rightarrow> int \<Rightarrow> int \<Rightarrow> bool \<Rightarrow> undefined_behaviour + VMM" where
  "loadPage s page_number f is_write =
     (let s1 = swapIn s page_number f;
          pt = recordPageAccess
                 (setFrameNumber (setPageValid (page_table s1) page_number True) page_number f)
                 page_number (total_accesses (metrics s1))
      in case (if is_write then
                 (case vec_set (frame_modified s1) f True of
                    Inl ub \<Rightarrow> Inl ub
                  | Inr fm \<Rightarrow>
                      Inr (s1\<lparr>page_table := setPageModified pt page_number True,
                              frame_modified := fm\<rparr>))
               else Inr (s1\<lparr>page_table := pt\<rparr>)) of
           Inl ub \<Rightarrow> Inl ub
         | Inr s2 \<Rightarrow>
            (case vec_set (frame_to_page s2) f page_number of
               Inl ub \<Rightarrow> Inl ub
             | Inr ftp \<Rightarrow>
                 Inr (s2\<lparr>frame_to_page := ftp,
                         replacement_manager := recordFrameAccess (replacement_manager s2) f\<rparr>)))"

definition handlePageFault :: "VMM \<Rightarrow> int \<Rightarrow> bool \<Rightarrow> undefined_behaviour + VMM" where
  "handlePageFault s page_number is_write =
     (case allocateFrame
             (emitEvent (s\<lparr>metrics := (metrics s)\<lparr>page_faults := size_t_incr (page_faults (metrics s))\<rparr>\<rparr>)
                ''FAULT'' (Page_fault_for_page page_number)) of
        Inl ub \<Rightarrow> Inl ub
      | Inr (f, s1) \<Rightarrow>
         (if f = -1 then
            (case evictVictim s1 of
               Inl ub \<Rightarrow> Inl ub
             | Inr (victim_frame, s2) \<Rightarrow>
                 if victim_frame = -1 then Inr s2 else loadPage s2 page_number victim_frame is_write)
          else loadPage s1 page_number f is_write))"

text \<open>The branch of \<open>accessPage\<close> for a page that is in memory.\<close>

definition serviceHit :: "VMM \<Rightarrow> int \<Rightarrow> bool \<Rightarrow> undefined_behaviour + VMM" where
  "serviceHit s page_number is_write =
     (let f = getFrameNumber (page_table s) page_number;
          s1 = s\<lparr>page_table := recordPageAccess (page_table s) page_number (total_accesses (metrics s)),
                 replacement_manager := recordFrameAccess (replacement_manager s) f\<rparr>;
          s2 = (if enable_ai_predictions (config s1) \<and> recent_predictions s1 \<noteq> []
                   \<and> page_number \<in> set (recent_predictions s1)
                then (emitEvent (s1\<lparr>metrics := (metrics s1)\<lparr>ai_hits := size_t_incr (ai_hits (metrics s1))\<rparr>\<rparr>)
                        ''AI'' (AI_HIT_Page_was_correctly_predicted page_number))
                       \<lparr>recent_predictions := remove1 page_number (recent_predictions s1)\<rparr>
                else s1)
      in if is_write then
           (case vec_set (frame_modified s2) f True of
              Inl ub \<Rightarrow> Inl ub
            | Inr fm \<Rightarrow>
                Inr (emitEvent
                       (s2\<lparr>page_table := setPageModified (page_table s2) page_number True,
                           frame_modified := fm\<rparr>)
                       ''ACCESS'' (Page_read_or_write page_number True)))
         else Inr (emitEvent s2 ''ACCESS'' (Page_read_or_write page_number False)))"

definition accessPage :: "VMM \<Rightarrow> int \<Rightarrow> bool \<Rightarrow> undefined_behaviour + (bool \<times> VMM)" where
  "accessPage s page_number is_write =
     (if \<not> simulation_running s then Inr (False, s)
      else
        (let s1 = updateRecentAccesses
                    (s\<lparr>metrics := (metrics s)\<lparr>total_accesses := size_t_incr (total_accesses (metrics s))\<rparr>\<rparr>)
                    page_number
         in case (if enable_ai_predictions (config s1) \<and> 3 \<le> length (recent_accesses s1) then
                    (case requestAIPredictions s1 of
                       Inl ub \<Rightarrow> Inl ub
                     | Inr (predictions, s2) \<Rightarrow> Inr (prefetch s2 page_number predictions))
                  else Inr s1) of
              Inl ub \<Rightarrow> Inl ub
            | Inr s3 \<Rightarrow>
                if isPageValid (page_table s3) page_number then
                  (case serviceHit s3 page_number is_write of
                     Inl ub \<Rightarrow> Inl ub
                   | Inr s4 \<Rightarrow> Inr (True, s4))
                else
                  (case handlePageFault s3 page_number is_write of
                     Inl ub \<Rightarrow> Inl ub
                   | Inr s4 \<Rightarrow> Inr (True, s4))))"

text \<open>The loop of \<open>setAIPredictions\<close> over the predicted pages, and the function.\<close>

fun prefetch_received :: "VMM \<Rightarrow> int list \<Rightarrow> VMM" where
  "prefetch_received s [] = s"
| "prefetch_received s (page # rest) =
     (if \<not> isPageValid (page_table s) page then
        (if findFreeFrame s \<noteq> -1 then
           prefetch_received
             (emitEvent
                ((swapIn s page (findFreeFrame s))
                   \<lparr>metrics := (metrics (swapIn s page (findFreeFrame s)))
                      \<lparr>ai_hits := size_t_incr (ai_hits (metrics (swapIn s page (findFreeFrame s))))\<rparr>\<rparr>)
                ''AI'' (Prefetched_page page))
             rest
         else prefetch_received s rest)
      else prefetch_received s rest)"

definition setAIPredictions :: "VMM \<Rightarrow> int list \<Rightarrow> VMM" where
  "setAIPredictions s predicted_pages =
     prefetch_received
       (emitEvent (s\<lparr>metrics := (metrics s)\<lparr>ai_predictions := size_t_incr (ai_predictions (metrics s))\<rparr>\<rparr>)
          ''AI'' (Received_predictions (length predicted_pages)))
       predicted_pages"

text \<open>
  A workload: the accesses \<open>(page, is_write)\<close> served one after the other, each on the
  state the one before left. The first undefined behaviour ends it.
\<close>

fun accessPages :: "VMM \<Rightarrow> (int \<times> bool) list \<Rightarrow> undefined_behaviour + VMM" where
  "accessPages s [] = Inr s"
| "accessPages s ((page_number, is_write) # rest) =
     (case accessPage s page_number is_write of
        Inl ub \<Rightarrow> Inl ub
      | Inr (ok, s') \<Rightarrow> accessPages s' rest)"

section \<open>Scenarios\<close>

text \<open>
  A configuration with the defaults of \<open>VMMConfig\<close> for the page size and the predictor
  URL; a fresh manager (constructed, with an event callback installed, started); a
  workload of reads.
\<close>

definition scenario_config :: "nat \<Rightarrow> nat \<Rightarrow> ReplacementPolicy \<Rightarrow> bool \<Rightarrow> VMMConfig" where
  "scenario_config F P policy ai =
     \<lparr>total_frames = F, page_size = 4096, total_pages = P, replacement_policy = policy,
      enable_ai_predictions = ai, ai_predictor_url = ''http://localhost:5000/predict''\<rparr>"

definition fresh :: "VMMConfig \<Rightarrow> VMM" where
  "fresh cfg = startSimulation (setEventCallback (VMM_new cfg) True)"

definition reads :: "int list \<Rightarrow> (int \<times> bool) list" where
  "reads ps = map (\<lambda>p. (p, False)) ps"

section \<open>Well-formed states\<close>





text \<open>The same manager with another value of \<open>total_pages\<close> in its configuration.\<close>

definition set_total_pages :: "nat \<Rightarrow> VMM \<Rightarrow> VMM" where
  "set_total_pages P s = s\<lparr>config := (config s)\<lparr>total_pages := P\<rparr>\<rparr>"

section \<open>Lemmas\<close>

text \<open>The loops are unfolded where a proof asks for it.\<close>

declare LRU_scan.simps [simp del] CLOCK_first_pass.simps [simp del] CLOCK_second_pass.simps [simp del]

subsection \<open>Evaluation\<close>

lemma replicate_numeral_Cons: "replicate (numeral k) x = x # replicate (pred_numeral k) x"
  by (simp add: numeral_eq_Suc)

lemma list_update_Cons_numeral: "(x # xs)[numeral k := v] = x # xs[pred_numeral k := v]"
  by (simp add: numeral_eq_Suc)

lemmas machine_defs = int32_def size_t_of_int_def size_t_incr_def ULLONG_MAX_def vec_get_def
  vec_set_def resize_def replicate_numeral_Cons list_update_Cons_numeral

lemmas page_table_defs = PageTable_new_def entry_at_def isPageValid_def getFrameNumber_def
  setPageValid_def setPageModified_def setFrameNumber_def recordPageAccess_def getValidPages_def
  PageEntry_default_def

lemmas replacement_defs = LRU_scan.simps CLOCK_first_pass.simps CLOCK_second_pass.simps
  LRU_selectVictimFrame_def CLOCK_selectVictimFrame_def
  setPolicy_def ReplacementManager_new_def selectVictimFrame_def recordFrameAccess_def
  recordFrameEviction_def

lemmas vmm_defs = VMM_new_def VMMMetrics_zero_def emitEvent_def setEventCallback_def
  startSimulation_def stopSimulation_def setConfig_def findFreeFrame_def allocateFrame_def
  swapIn_def swapOut_def updateRecentAccesses_def MAX_RECENT_ACCESSES_def mod_total_pages_def
  pattern_predictions_def record_predictions_def requestAIPredictions_def evictVictim_def
  loadPage_def handlePageFault_def serviceHit_def accessPage_def setAIPredictions_def
  getUsedFrameCount_def scenario_config_def fresh_def reads_def

subsection \<open>Counters and vectors\<close>



lemma int32_small: "0 \<le> x \<Longrightarrow> x < 2 ^ 31 \<Longrightarrow> int32 x = x"
  by (simp add: int32_def)

lemma vec_get_in_range: "0 \<le> i \<Longrightarrow> i < int (length xs) \<Longrightarrow> vec_get xs i = Inr (xs ! nat i)"
  by (simp add: vec_get_def)

lemma vec_set_in_range: "0 \<le> i \<Longrightarrow> i < int (length xs) \<Longrightarrow> vec_set xs i v = Inr (xs[nat i := v])"
  by (simp add: vec_set_def)



subsection \<open>The policies on a well-formed state\<close>








subsection \<open>The page table on a well-formed state\<close>






subsection \<open>The steps of an access on a well-formed state\<close>






















subsection \<open>Page-table reads after writes\<close>





lemma getFrameNumber_setFrameNumber:
  "isPageValid pt p \<Longrightarrow> getFrameNumber (setFrameNumber pt p f) p = f"
  by (simp add: isPageValid_def getFrameNumber_def setFrameNumber_def entry_at_def update_conv'
      split: option.splits)

lemma getFrameNumber_setPageModified:
  "getFrameNumber (setPageModified pt p m) q = getFrameNumber pt q"
  by (simp add: getFrameNumber_def setPageModified_def entry_at_def update_conv' PageEntry_default_def
      split: option.splits)

lemma getFrameNumber_recordPageAccess:
  "getFrameNumber (recordPageAccess pt p t) q = getFrameNumber pt q"
  by (simp add: getFrameNumber_def recordPageAccess_def entry_at_def update_conv' PageEntry_default_def
      split: option.splits)

subsection \<open>The conversions on small values\<close>

lemma mod_total_pages_small:
  assumes "0 \<le> x" "x < 2 ^ 31"
  shows "mod_total_pages x tp = int (nat x mod tp)"
proof -
  have "x mod 2 ^ 64 = x"
    using assms by simp
  then have conv: "size_t_of_int x = nat x"
    by (simp add: size_t_of_int_def)
  have "nat x mod tp \<le> nat x"
    by (rule mod_less_eq_dividend)
  then have "int (nat x mod tp) < 2 ^ 31"
    using assms by linarith
  then show ?thesis
    by (simp add: mod_total_pages_def conv int32_small)
qed

subsection \<open>What a served access leaves behind\<close>















subsection \<open>The service of an access does not read total_pages\<close>


lemma set_total_pages_swapIn:
  "swapIn (set_total_pages P s) p f = set_total_pages P (swapIn s p f)"
  by (simp add: swapIn_def emitEvent_def set_total_pages_def)

lemma set_total_pages_swapOut:
  "swapOut (set_total_pages P s) p f = set_total_pages P (swapOut s p f)"
  by (simp add: swapOut_def emitEvent_def set_total_pages_def)







subsection \<open>The mutators of the page table\<close>


section \<open>Claims\<close>

text \<open>
  Claim C1. The reads 4, 5, 6 with predictions enabled, four frames and 1024 pages: at
  the third access the predictor proposes 7, 8 and 9, frames 2 and 3 are free, and the
  prefetch of each emits its event and counts a swap-in (six in all, three of them for
  the faults); afterwards page 7 is not valid, frame 2 holds page 6, and frame 3 is
  still free and bound to no page.
\<close>

theorem prefetch_does_not_install:
  "case accessPages (fresh (scenario_config 4 1024 FIFO True)) (reads [4, 5, 6]) of
     Inl ub \<Rightarrow> False
   | Inr s \<Rightarrow>
       \<lparr>ev_type = ''AI'', ev_message = Prefetched_page_based_on_AI_prediction 7\<rparr> \<in> set (events s) \<and>
       swap_ins (metrics s) = 6 \<and>
       \<not> isPageValid (page_table s) 7 \<and>
       frame_validity s = [True, True, True, False] \<and>
       frame_to_page s = [4, 5, 6, -1]"
  by (simp add: vmm_defs replacement_defs machine_defs page_table_defs Let_def)

text \<open>
  Claim C2. \<open>setAIPredictions\<close> with the two pages 1 and 2 on a newly constructed
  manager with three free frames: it counts one prediction and two hits.
\<close>

theorem setAIPredictions_counts_hits:
  "metrics (setAIPredictions (VMM_new (scenario_config 3 8 FIFO True)) [1, 2])
     = \<lparr>total_accesses = 0, page_faults = 0, swap_ins = 2, swap_outs = 0,
        ai_predictions = 1, ai_hits = 2\<rparr>"
  by (simp add: vmm_defs replacement_defs machine_defs page_table_defs Let_def)




text \<open>
  Claim C4. The CLOCK policy on three occupied frames whose reference bits are all set,
  the state the manager is in when its three frames have been filled: both passes end
  where they started and \<open>selectVictimFrame\<close> returns \<open>-1\<close>, having cleared the bits.
\<close>

theorem clock_all_referenced_returns_none:
  "CLOCK_selectVictimFrame [True, True, True] [True, True, True] 0
     = Inr (-1, CLOCKReplacement [False, False, False] 0)"
  by (simp add: replacement_defs machine_defs)

text \<open>
  Claim C5. The FIFO scenario of the specification on the code: three frames, eight
  pages, FIFO, predictions disabled, the reads 1,2,3,4,1,2,5,1,2,3,4,5 from a fresh
  start. The run has 9 page faults, and the resident pages at its end are 2, 3 and 5:
  \<open>FIFOReplacement::selectVictimFrame\<close> returns the head of its queue without removing
  it, so frame 0 is the victim of every eviction and pages 2 and 3 are never evicted.
\<close>

theorem fifo_scenario_on_code:
  "case accessPages (fresh (scenario_config 3 8 FIFO False))
          (reads [1, 2, 3, 4, 1, 2, 5, 1, 2, 3, 4, 5]) of
     Inl ub \<Rightarrow> False
   | Inr s \<Rightarrow>
       page_faults (metrics s) = 9 \<and>
       set (getValidPages (page_table s)) = {2, 3, 5} \<and>
       frame_to_page s = [5, 2, 3] \<and>
       algorithm (replacement_manager s) = FIFOReplacement [0, 1, 2] {0, 1, 2}"
  by (simp add: vmm_defs replacement_defs machine_defs page_table_defs Let_def insert_commute)

text \<open>
  Claim C6. \<open>setConfig\<close> after one write access to page 1, with the configuration the
  manager already has: the page table is empty and the metrics are unchanged, but
  frame 0 is still occupied, dirty and bound to page 1, since \<open>resize\<close> keeps the
  elements of the three vectors.
\<close>

theorem setConfig_keeps_frames:
  "case accessPage (fresh (scenario_config 3 8 FIFO False)) 1 True of
     Inl ub \<Rightarrow> False
   | Inr (ok, s) \<Rightarrow>
       ok \<and>
       metrics (setConfig s (scenario_config 3 8 FIFO False)) = metrics s \<and>
       getValidPages (page_table (setConfig s (scenario_config 3 8 FIFO False))) = [] \<and>
       frame_validity (setConfig s (scenario_config 3 8 FIFO False)) = [True, False, False] \<and>
       frame_to_page (setConfig s (scenario_config 3 8 FIFO False)) = [1, -1, -1] \<and>
       frame_modified (setConfig s (scenario_config 3 8 FIFO False)) = [True, False, False]"
  by (simp add: vmm_defs replacement_defs machine_defs page_table_defs Let_def)




text \<open>
  Claim C8, as stated: on the window 4, 5, 6 the predictor returns exactly the set
  \<open>{7, 8}\<close>. With 1024 pages it returns 7, 8 and 9.
\<close>

theorem predictor_window_456_counterexample:
  "case requestAIPredictions ((fresh (scenario_config 3 1024 FIFO True))\<lparr>recent_accesses := [4, 5, 6]\<rparr>) of
     Inl ub \<Rightarrow> False
   | Inr (predictions, s) \<Rightarrow> predictions = [7, 8, 9] \<and> set predictions \<noteq> {7, 8}"
  by (simp add: vmm_defs replacement_defs machine_defs page_table_defs Let_def insert_eq_iff)

text \<open>
  Claim C8, amended. When predictions are enabled, \<open>total_pages\<close> is positive and the
  last three entries of the recent-access window are 4, 5, 6, the predictor returns the
  three candidates \<open>7 mod total_pages\<close>, \<open>8 mod total_pages\<close>, \<open>9 mod total_pages\<close> in
  this order, with confidence 0.85: the stride-1 rule gives the first two, and the
  appended candidate \<open>(p3 + 3) mod total_pages\<close> is always added, since a pattern rule
  produces two candidates, which is fewer than 3.
\<close>

theorem predictor_window_456:
  assumes "enable_ai_predictions (config s)" and "0 < total_pages (config s)"
    and "recent_accesses s = ra @ [4, 5, 6]"
  shows "\<exists>s'. requestAIPredictions s =
           Inr ([int (7 mod total_pages (config s)), int (8 mod total_pages (config s)),
                 int (9 mod total_pages (config s))], s') \<and>
         ai_prediction_confidence s' = 85 / 100"
proof -
  have w: "last (recent_accesses s) = 6"
      "recent_accesses s ! (length (recent_accesses s) - 2) = 5"
      "recent_accesses s ! (length (recent_accesses s) - 3) = 4"
    by (simp_all add: assms(3) nth_append)
  have pat: "pattern_predictions 4 5 6 (total_pages (config s))
      = ([int (7 mod total_pages (config s)), int (8 mod total_pages (config s))], 85 / 100)"
    by (simp add: pattern_predictions_def int32_small mod_total_pages_small)
  have third: "mod_total_pages (int32 9) (total_pages (config s))
      = int (9 mod total_pages (config s))"
    by (simp add: int32_small mod_total_pages_small)
  have ne: "recent_accesses s \<noteq> []" "3 \<le> length (recent_accesses s)"
    by (simp_all add: assms(3))
  from assms(1) assms(2) ne show ?thesis
    by (simp add: requestAIPredictions_def Let_def w pat third record_predictions_def
        emitEvent_def)
qed

theorem predictor_window_456_witness:
  "enable_ai_predictions (config ((fresh (scenario_config 3 1024 FIFO True))\<lparr>recent_accesses := [1, 4, 5, 6]\<rparr>)) \<and>
   0 < total_pages (config ((fresh (scenario_config 3 1024 FIFO True))\<lparr>recent_accesses := [1, 4, 5, 6]\<rparr>)) \<and>
   (\<exists>s'. requestAIPredictions ((fresh (scenario_config 3 1024 FIFO True))\<lparr>recent_accesses := [1, 4, 5, 6]\<rparr>)
            = Inr ([7, 8, 9], s') \<and>
          ai_prediction_confidence s' = 85 / 100)"
  using predictor_window_456 [of "(fresh (scenario_config 3 1024 FIFO True))\<lparr>recent_accesses := [1, 4, 5, 6]\<rparr>" "[1]"]
  by (simp add: fresh_def startSimulation_def setEventCallback_def emitEvent_def VMM_new_def
      scenario_config_def)

text \<open>
  Claim C9. For every page and write flag, if \<open>simulation_running\<close> is false then
  \<open>accessPage\<close> returns false and the whole state of the manager (metrics, page table,
  frames, recent accesses, replacement policy, events) is the one it was called on; in
  particular after \<open>stopSimulation\<close>.
\<close>

theorem accessPage_not_running:
  "(\<not> simulation_running s \<longrightarrow> accessPage s page_number is_write = Inr (False, s)) \<and>
   accessPage (stopSimulation s) page_number is_write = Inr (False, stopSimulation s)"
  by (simp add: accessPage_def stopSimulation_def emitEvent_def)

theorem accessPage_not_running_witness:
  "\<not> simulation_running (VMM_new (scenario_config 3 8 FIFO False)) \<and>
   accessPage (VMM_new (scenario_config 3 8 FIFO False)) 1 True
     = Inr (False, VMM_new (scenario_config 3 8 FIFO False))"
  using accessPage_not_running [of "VMM_new (scenario_config 3 8 FIFO False)" 1 True]
  by (simp add: VMM_new_def)

text \<open>
  Claim C10. The derived rates at a zero denominator: \<open>getPageFaultRate\<close> is \<open>0.0\<close>
  whenever \<open>total_accesses\<close> is 0 and \<open>getAIHitRate\<close> is \<open>0.0\<close> whenever
  \<open>ai_predictions\<close> is 0, for the accessors of the manager and the members of the
  metrics struct, in every state.
\<close>

theorem rates_zero_denominator:
  "(total_accesses (metrics s) = 0 \<longrightarrow>
      getPageFaultRate s = 0 \<and> VMMMetrics_getPageFaultRate (metrics s) = 0) \<and>
   (ai_predictions (metrics s) = 0 \<longrightarrow>
      getAIHitRate s = 0 \<and> VMMMetrics_getAIHitRate (metrics s) = 0)"
  by (simp add: getPageFaultRate_def VMMMetrics_getPageFaultRate_def getAIHitRate_def
      VMMMetrics_getAIHitRate_def)

theorem rates_zero_denominator_witness:
  "total_accesses (metrics (VMM_new (scenario_config 3 8 FIFO False))) = 0 \<and>
   ai_predictions (metrics (VMM_new (scenario_config 3 8 FIFO False))) = 0 \<and>
   getPageFaultRate (VMM_new (scenario_config 3 8 FIFO False)) = 0 \<and>
   VMMMetrics_getPageFaultRate (metrics (VMM_new (scenario_config 3 8 FIFO False))) = 0 \<and>
   getAIHitRate (VMM_new (scenario_config 3 8 FIFO False)) = 0 \<and>
   VMMMetrics_getAIHitRate (metrics (VMM_new (scenario_config 3 8 FIFO False))) = 0"
  using rates_zero_denominator [of "VMM_new (scenario_config 3 8 FIFO False)"]
  by (simp add: VMM_new_def VMMMetrics_zero_def)

end
